theory Spec2Isabelle
  imports Main
begin

section \<open>JavaScript values\<close>

text \<open>
  The TypeScript sources are erased to JavaScript before they run: a cast such as
  \<^verbatim>\<open>limits[feature] as boolean\<close> leaves the value as it is, and the operators
  \<^verbatim>\<open>||\<close> and \<^verbatim>\<open>&&\<close> return one of their operands, chosen by the truthiness
  of the left one. The values that reach these operators in the code below are
  \<^verbatim>\<open>undefined\<close>, booleans, the integers of the plan table and strings.
\<close>

datatype jsval = JUndefined | JBool bool | JNum int | JStr string

fun truthy :: "jsval \<Rightarrow> bool" where
  "truthy JUndefined = False"
| "truthy (JBool b) = b"
| "truthy (JNum n) = (n \<noteq> 0)"
| "truthy (JStr s) = (s \<noteq> [])"

definition js_or :: "jsval \<Rightarrow> jsval \<Rightarrow> jsval" where
  "js_or a b = (if truthy a then a else b)"

definition js_and :: "jsval \<Rightarrow> jsval \<Rightarrow> jsval" where
  "js_and a b = (if truthy a then b else a)"

text \<open>An optional string property: \<^verbatim>\<open>undefined\<close> when it is missing.\<close>

fun opt_str :: "string option \<Rightarrow> jsval" where
  "opt_str None = JUndefined"
| "opt_str (Some s) = JStr s"

section \<open>Plan catalog and limit evaluator (subscription-utils.ts)\<close>

datatype SubscriptionPlan = Basic | Premium

datatype SubscriptionProvider = Stripe | RevenueCat

record SubscriptionLimits =
  maxGroups :: int
  maxEventsPerMonth :: int
  maxMembersPerGroup :: int
  canUseAdvancedFeatures :: bool
  hasRealTimeChat :: bool
  hasTaskManagement :: bool
  hasEventPlanning :: bool
  hasMailingLabels :: bool

text \<open>\<^verbatim>\<open>keyof SubscriptionLimits\<close>: the eight property names.\<close>

datatype LimitsKey =
  K_maxGroups | K_maxEventsPerMonth | K_maxMembersPerGroup
  | K_canUseAdvancedFeatures | K_hasRealTimeChat | K_hasTaskManagement
  | K_hasEventPlanning | K_hasMailingLabels

definition PLAN_LIMITS :: "SubscriptionPlan \<Rightarrow> SubscriptionLimits" where
  "PLAN_LIMITS plan = (case plan of
     Basic \<Rightarrow> \<lparr> maxGroups = 0, maxEventsPerMonth = 0, maxMembersPerGroup = - 1,
       canUseAdvancedFeatures = False, hasRealTimeChat = True, hasTaskManagement = True,
       hasEventPlanning = False, hasMailingLabels = False \<rparr>
   | Premium \<Rightarrow> \<lparr> maxGroups = - 1, maxEventsPerMonth = - 1, maxMembersPerGroup = - 1,
       canUseAdvancedFeatures = True, hasRealTimeChat = True, hasTaskManagement = True,
       hasEventPlanning = True, hasMailingLabels = True \<rparr>)"

definition getPlanLimits :: "SubscriptionPlan \<Rightarrow> SubscriptionLimits" where
  "getPlanLimits plan = PLAN_LIMITS plan"

text \<open>Property access \<^verbatim>\<open>limits[feature]\<close>: the stored value, a number or a boolean.\<close>

fun limits_at :: "SubscriptionLimits \<Rightarrow> LimitsKey \<Rightarrow> jsval" where
  "limits_at l K_maxGroups = JNum (maxGroups l)"
| "limits_at l K_maxEventsPerMonth = JNum (maxEventsPerMonth l)"
| "limits_at l K_maxMembersPerGroup = JNum (maxMembersPerGroup l)"
| "limits_at l K_canUseAdvancedFeatures = JBool (canUseAdvancedFeatures l)"
| "limits_at l K_hasRealTimeChat = JBool (hasRealTimeChat l)"
| "limits_at l K_hasTaskManagement = JBool (hasTaskManagement l)"
| "limits_at l K_hasEventPlanning = JBool (hasEventPlanning l)"
| "limits_at l K_hasMailingLabels = JBool (hasMailingLabels l)"

text \<open>
  \<^verbatim>\<open>return limits[feature] as boolean;\<close> The cast exists for the type checker only:
  what is returned is the stored property.
\<close>

definition canUserAccessFeature :: "SubscriptionPlan \<Rightarrow> LimitsKey \<Rightarrow> jsval" where
  "canUserAccessFeature userPlan feature = (let limits = getPlanLimits userPlan in limits_at limits feature)"

definition canHouseholdAccessFeature :: "jsval \<Rightarrow> LimitsKey \<Rightarrow> jsval" where
  "canHouseholdAccessFeature hasPremiumInHousehold feature =
     (let plan = (if truthy hasPremiumInHousehold then Premium else Basic)
      in canUserAccessFeature plan feature)"

text \<open>
  \<^verbatim>\<open>hasReachedLimit(currentCount: number, limit: number)\<close> on integer arguments
  (counts and limits are integers throughout; on them \<^verbatim>\<open>===\<close> and \<^verbatim>\<open>>=\<close> of
  JavaScript numbers agree with the integers' own).
\<close>

definition hasReachedLimit :: "int \<Rightarrow> int \<Rightarrow> bool" where
  "hasReachedLimit currentCount limit = (if limit = - 1 then False else currentCount \<ge> limit)"

subsection \<open>hasActiveSubscription\<close>

text \<open>
  A \<^verbatim>\<open>Date\<close> object holds a time value: a whole number of milliseconds, or NaN
  (an invalid date), here \<open>None\<close>. \<^verbatim>\<open>new Date(x)\<close> copies the time value of a
  date and parses a string; parsing is the host's \<^verbatim>\<open>Date.parse\<close>, a parameter of
  the model, which gives NaN for a string that is no date. Comparing two dates with
  \<^verbatim>\<open><=\<close> compares their time values as numbers, and every comparison with NaN
  is false.
\<close>

datatype Date = Date (time_value: "int option")

datatype DateOrString = OfDate Date | OfString string

fun new_Date :: "(string \<Rightarrow> int option) \<Rightarrow> DateOrString \<Rightarrow> Date" where
  "new_Date Date_parse (OfDate d) = Date (time_value d)"
| "new_Date Date_parse (OfString s) = Date (Date_parse s)"

fun date_le :: "Date \<Rightarrow> Date \<Rightarrow> bool" where
  "date_le (Date (Some a)) (Date (Some b)) = (a \<le> b)"
| "date_le _ _ = False"

text \<open>
  Truthiness of the optional argument \<^verbatim>\<open>subscriptionEndsAt?: Date | string\<close>:
  \<^verbatim>\<open>undefined\<close> and the empty string are falsy, every object is truthy.
\<close>

fun truthy_ends :: "DateOrString option \<Rightarrow> bool" where
  "truthy_ends None = False"
| "truthy_ends (Some (OfDate d)) = True"
| "truthy_ends (Some (OfString s)) = (s \<noteq> [])"

text \<open>
  \<open>now\<close> is the time value of \<^verbatim>\<open>new Date()\<close>, the clock at the call. The
  fourth argument is accepted and never read.
\<close>

definition hasActiveSubscription ::
  "(string \<Rightarrow> int option) \<Rightarrow> int \<Rightarrow> string option \<Rightarrow> string option \<Rightarrow>
   DateOrString option \<Rightarrow> string option \<Rightarrow> bool" where
  "hasActiveSubscription Date_parse now subscriptionPlan subscriptionStatus
     subscriptionEndsAt subscriptionProvider =
     (if subscriptionPlan \<noteq> Some ''premium'' then False
      else if subscriptionStatus \<noteq> Some ''active'' then False
      else (case subscriptionEndsAt of
          None \<Rightarrow> True
        | Some endsAt \<Rightarrow>
            if truthy_ends (Some endsAt)
            then (let expirationDate = new_Date Date_parse endsAt; now_date = Date (Some now)
                  in if date_le expirationDate now_date then False else True)
            else True))"

section \<open>Purchase-flow orchestrator (hooks/usePurchases.ts)\<close>

text \<open>
  The hook keeps its state in React state cells and talks to the purchase service, the
  backend and the toast display. The model makes each of these an event, in the order
  the code performs them; what the awaited calls answer is an input of the run.
  \<^verbatim>\<open>console.log\<close> and \<^verbatim>\<open>console.error\<close> are left out.
\<close>

text \<open>
  \<^verbatim>\<open>SubscriptionProduct\<close> without its optional \<^verbatim>\<open>introPrice\<close>, and
  \<^verbatim>\<open>ActiveSubscription\<close> without \<^verbatim>\<open>originalTransactionId\<close> and
  \<^verbatim>\<open>entitlements\<close>: the hook stores these records and reads \<open>isActive\<close> only.
  Dates are time values in milliseconds. The field \<^verbatim>\<open>identifier\<close> is named
  \<open>product_identifier\<close> here.
\<close>

record SubscriptionProduct =
  product_identifier :: string
  title :: string
  description :: string
  price :: string
  priceString :: string
  currencyCode :: string

record ActiveSubscription =
  productId :: string
  isActive :: bool
  renewalDate :: "int option"
  expirationDate :: "int option"

record PurchasesError =
  message :: string
  code :: string

text \<open>The SDK's \<^verbatim>\<open>CustomerInfo\<close> object; the hook only tests that it is there.\<close>

datatype CustomerInfo = CustomerInfo string

text \<open>What \<^verbatim>\<open>purchasesService.purchaseProduct\<close> and \<^verbatim>\<open>restorePurchases\<close> resolve to.\<close>

record PurchaseResult =
  success :: bool
  customerInfo :: "CustomerInfo option"
  error :: "PurchasesError option"

text \<open>
  A thrown value: an \<^verbatim>\<open>Error\<close> with its message, or any other value
  (\<^verbatim>\<open>null\<close> and \<^verbatim>\<open>undefined\<close> among them).
\<close>

datatype js_thrown = JsError string | NonError

text \<open>
  \<^verbatim>\<open>error.message || fallback\<close> for an \<^verbatim>\<open>Error\<close> object with message \<open>m\<close>.
  The \<^verbatim>\<open>catch\<close> blocks of the hook read the message this way, and what they catch
  is an \<^verbatim>\<open>Error\<close> object: the one the \<^verbatim>\<open>try\<close> block throws itself, or one
  that left a method of the purchase service. These methods (services/purchases.ts)
  catch whatever the SDK throws and answer with a result; only an error raised inside
  their own \<^verbatim>\<open>catch\<close> block, a \<^verbatim>\<open>TypeError\<close>, can leave them.
\<close>

definition message_or :: "string \<Rightarrow> string \<Rightarrow> string" where
  "message_or m fallback = (if m \<noteq> [] then m else fallback)"

text \<open>\<^verbatim>\<open>error instanceof Error ? error.message : fallback\<close>\<close>

fun error_message_else :: "js_thrown \<Rightarrow> string \<Rightarrow> string" where
  "error_message_else (JsError m) fallback = m"
| "error_message_else NonError fallback = fallback"

datatype toast_variant = Default | Destructive

datatype event =
    SetIsLoading bool
  | SetActiveSubscription "ActiveSubscription option"
  | ServicePurchase string
  | ServiceRestore
  | ServiceGetActiveSubscription
  | ServiceGetSubscriptionProducts
  | SetProducts "SubscriptionProduct list"
  | ApiRequest string string "(string \<times> string) list"
  | ApiSettled bool
  | ScheduleDispatch nat string
  | Toast string string toast_variant
  | FormSubmit string

record purchases_state =
  isInitialized :: bool
  isLoading :: bool
  products :: "SubscriptionProduct list"
  activeSubscription :: "ActiveSubscription option"

text \<open>
  The answers of the awaited calls of one run: \<open>Inl\<close> when the promise rejects. A
  call of the purchase service rejects with an \<^verbatim>\<open>Error\<close> object, given by its
  message; the request to the backend may reject with any value.
\<close>

record purchases_env =
  products_outcome :: "string + SubscriptionProduct list"
  purchase_outcome :: "string + PurchaseResult"
  restore_outcome :: "string + PurchaseResult"
  active_outcome :: "string + ActiveSubscription option"
  verify_outcome :: "js_thrown + unit"

text \<open>\<^verbatim>\<open>const hasPremium = activeSubscription?.isActive || false;\<close>\<close>

definition hasPremium :: "purchases_state \<Rightarrow> jsval" where
  "hasPremium st =
     js_or (case activeSubscription st of None \<Rightarrow> JUndefined | Some a \<Rightarrow> JBool (isActive a))
       (JBool False)"

definition verify_request :: event where
  "verify_request = ApiRequest ''POST'' ''/api/revenuecat/verify'' []"

text \<open>
  \<^verbatim>\<open>verifyWithBackend\<close> catches whatever the request throws and shows nothing; the
  refresh event is scheduled (one second later) only when the request resolved.
\<close>

definition verifyWithBackend :: "bool \<Rightarrow> purchases_env \<Rightarrow> event list" where
  "verifyWithBackend isNativePlatform env =
     (if \<not> isNativePlatform then []
      else (case verify_outcome env of
          Inr _ \<Rightarrow> [verify_request, ApiSettled True,
                    ScheduleDispatch 1000 ''subscription-status-changed'']
        | Inl _ \<Rightarrow> [verify_request, ApiSettled False]))"

definition purchase_success_toast :: event where
  "purchase_success_toast =
     Toast ''Purchase Successful!'' ''Welcome to Premium! Your subscription is now active.'' Default"

text \<open>The \<^verbatim>\<open>try\<close> block of \<^verbatim>\<open>purchaseProduct\<close>: its events, and a throw or the value returned.\<close>

definition purchaseProduct_try ::
  "purchases_state \<Rightarrow> bool \<Rightarrow> purchases_env \<Rightarrow> string \<Rightarrow> event list \<times> (string + bool)" where
  "purchaseProduct_try st isNativePlatform env pid =
     (if \<not> isInitialized st \<or> \<not> isNativePlatform
      then ([], Inl ''Purchases not available on this platform'')
      else (case purchase_outcome env of
          Inl e \<Rightarrow> ([SetIsLoading True, ServicePurchase pid], Inl e)
        | Inr result \<Rightarrow>
            if success result \<and> customerInfo result \<noteq> None then
              (case active_outcome env of
                  Inl e \<Rightarrow>
                    ([SetIsLoading True, ServicePurchase pid, ServiceGetActiveSubscription], Inl e)
                | Inr a \<Rightarrow>
                    ([SetIsLoading True, ServicePurchase pid, ServiceGetActiveSubscription,
                      SetActiveSubscription a]
                     @ verifyWithBackend isNativePlatform env
                     @ [purchase_success_toast], Inr True))
            else (case error result of
                Some err \<Rightarrow>
                  if code err = ''PURCHASE_CANCELLED''
                  then ([SetIsLoading True, ServicePurchase pid], Inr False)
                  else ([SetIsLoading True, ServicePurchase pid,
                         Toast ''Purchase Failed'' (message err) Destructive], Inr False)
              | None \<Rightarrow> ([SetIsLoading True, ServicePurchase pid], Inr False))))"

text \<open>\<^verbatim>\<open>catch\<close> and \<^verbatim>\<open>finally\<close> around it: the events of the call and its result.\<close>

definition purchaseProduct ::
  "purchases_state \<Rightarrow> bool \<Rightarrow> purchases_env \<Rightarrow> string \<Rightarrow> event list \<times> bool" where
  "purchaseProduct st isNativePlatform env pid =
     (case purchaseProduct_try st isNativePlatform env pid of
        (evs, Inr b) \<Rightarrow> (evs @ [SetIsLoading False], b)
      | (evs, Inl e) \<Rightarrow>
          (evs @ [Toast ''Purchase Error'' (message_or e ''Purchase failed. Please try again.'')
                    Destructive,
                  SetIsLoading False], False))"

definition restorePurchases_try ::
  "purchases_state \<Rightarrow> bool \<Rightarrow> purchases_env \<Rightarrow> event list \<times> (string + bool)" where
  "restorePurchases_try st isNativePlatform env =
     (if \<not> isInitialized st \<or> \<not> isNativePlatform
      then ([], Inl ''Purchases not available on this platform'')
      else (case restore_outcome env of
          Inl e \<Rightarrow> ([SetIsLoading True, ServiceRestore], Inl e)
        | Inr result \<Rightarrow>
            if success result \<and> customerInfo result \<noteq> None then
              (case active_outcome env of
                  Inl e \<Rightarrow>
                    ([SetIsLoading True, ServiceRestore, ServiceGetActiveSubscription], Inl e)
                | Inr a \<Rightarrow>
                    ([SetIsLoading True, ServiceRestore, ServiceGetActiveSubscription,
                      SetActiveSubscription a]
                     @ verifyWithBackend isNativePlatform env
                     @ [if (case a of None \<Rightarrow> False | Some x \<Rightarrow> isActive x)
                        then Toast ''Purchases Restored!''
                               ''Your Premium subscription has been restored.'' Default
                        else Toast ''No Purchases Found''
                               ''No active subscriptions found to restore.'' Default],
                     Inr True))
            else (case error result of
                Some err \<Rightarrow>
                  ([SetIsLoading True, ServiceRestore,
                    Toast ''Restore Failed'' (message err) Destructive], Inr False)
              | None \<Rightarrow> ([SetIsLoading True, ServiceRestore], Inr False))))"

definition restorePurchases ::
  "purchases_state \<Rightarrow> bool \<Rightarrow> purchases_env \<Rightarrow> event list \<times> bool" where
  "restorePurchases st isNativePlatform env =
     (case restorePurchases_try st isNativePlatform env of
        (evs, Inr b) \<Rightarrow> (evs @ [SetIsLoading False], b)
      | (evs, Inl e) \<Rightarrow>
          (evs @ [Toast ''Restore Error'' (message_or e ''Failed to restore purchases.'')
                    Destructive,
                  SetIsLoading False], False))"

text \<open>
  \<^verbatim>\<open>fetchProducts\<close>, which the hook's effect calls once the hook is initialised on a
  native platform: it stores the products and the SDK's active subscription. An early
  \<^verbatim>\<open>return\<close> inside \<^verbatim>\<open>try\<close> still runs \<^verbatim>\<open>finally\<close>.
\<close>

definition fetchProducts_try ::
  "purchases_state \<Rightarrow> bool \<Rightarrow> purchases_env \<Rightarrow> event list \<times> string option" where
  "fetchProducts_try st isNativePlatform env =
     (if \<not> isInitialized st \<or> \<not> isNativePlatform then ([], None)
      else (case products_outcome env of
          Inl e \<Rightarrow> ([SetIsLoading True, ServiceGetSubscriptionProducts], Some e)
        | Inr availableProducts \<Rightarrow>
            (case active_outcome env of
                Inl e \<Rightarrow>
                  ([SetIsLoading True, ServiceGetSubscriptionProducts,
                    SetProducts availableProducts, ServiceGetActiveSubscription], Some e)
              | Inr a \<Rightarrow>
                  ([SetIsLoading True, ServiceGetSubscriptionProducts,
                    SetProducts availableProducts, ServiceGetActiveSubscription,
                    SetActiveSubscription a], None))))"

definition fetchProducts :: "purchases_state \<Rightarrow> bool \<Rightarrow> purchases_env \<Rightarrow> event list" where
  "fetchProducts st isNativePlatform env =
     (case fetchProducts_try st isNativePlatform env of
        (evs, None) \<Rightarrow> evs @ [SetIsLoading False]
      | (evs, Some e) \<Rightarrow>
          evs @ [Toast ''Products Error'' ''Failed to load subscription products.'' Destructive,
                 SetIsLoading False])"

text \<open>The state cells after an event, and after a list of events.\<close>

fun apply_event :: "purchases_state \<Rightarrow> event \<Rightarrow> purchases_state" where
  "apply_event st (SetIsLoading b) = st\<lparr>isLoading := b\<rparr>"
| "apply_event st (SetActiveSubscription a) = st\<lparr>activeSubscription := a\<rparr>"
| "apply_event st (SetProducts ps) = st\<lparr>products := ps\<rparr>"
| "apply_event st _ = st"

definition after_events :: "purchases_state \<Rightarrow> event list \<Rightarrow> purchases_state" where
  "after_events st evs = foldl apply_event st evs"

text \<open>
  Order in a trace: \<open>precedes a b evs\<close> says that no \<open>b\<close> happens before the first
  \<open>a\<close> (so none at all when \<open>a\<close> never happens).
\<close>

definition precedes :: "event \<Rightarrow> event \<Rightarrow> event list \<Rightarrow> bool" where
  "precedes a b evs = (b \<notin> set (takeWhile (\<lambda>e. e \<noteq> a) evs))"

fun is_toast :: "event \<Rightarrow> bool" where
  "is_toast (Toast _ _ _) = True"
| "is_toast _ = False"

fun is_api_request :: "event \<Rightarrow> bool" where
  "is_api_request (ApiRequest _ _ _) = True"
| "is_api_request _ = False"

text \<open>The events of the backend: a request, and the settling of one.\<close>

fun is_backend_event :: "event \<Rightarrow> bool" where
  "is_backend_event (ApiRequest _ _ _) = True"
| "is_backend_event (ApiSettled _) = True"
| "is_backend_event _ = False"

section \<open>Entitlement reconciler (hooks/useHouseholdSubscription)\<close>

text \<open>
  The answer of the household query (\<open>None\<close> while it has no data), without the
  fields \<^verbatim>\<open>premiumUser\<close> and \<^verbatim>\<open>household\<close>, which the hook hands on unread.
\<close>

record HouseholdSubscriptionStatus =
  hs_hasPremium :: bool
  hs_subscriptionProvider :: "SubscriptionProvider option"

record User =
  subscriptionPlan :: "string option"
  subscriptionProvider :: "string option"

fun provider_string :: "SubscriptionProvider \<Rightarrow> string" where
  "provider_string Stripe = ''stripe''"
| "provider_string RevenueCat = ''revenuecat''"

text \<open>\<^verbatim>\<open>householdStatus?.hasPremium\<close> and \<^verbatim>\<open>householdStatus?.subscriptionProvider\<close>\<close>

definition household_hasPremium :: "HouseholdSubscriptionStatus option \<Rightarrow> jsval" where
  "household_hasPremium householdStatus =
     (case householdStatus of None \<Rightarrow> JUndefined | Some h \<Rightarrow> JBool (hs_hasPremium h))"

definition household_provider :: "HouseholdSubscriptionStatus option \<Rightarrow> jsval" where
  "household_provider householdStatus =
     (case householdStatus of None \<Rightarrow> JUndefined
      | Some h \<Rightarrow> opt_str (map_option provider_string (hs_subscriptionProvider h)))"

text \<open>\<^verbatim>\<open>const userIsPremium = user?.subscriptionPlan === 'premium';\<close>\<close>

definition userIsPremium :: "User option \<Rightarrow> bool" where
  "userIsPremium user = (case user of None \<Rightarrow> False | Some u \<Rightarrow> subscriptionPlan u = Some ''premium'')"

text \<open>\<^verbatim>\<open>user?.subscriptionProvider\<close>\<close>

definition user_provider :: "User option \<Rightarrow> jsval" where
  "user_provider user = (case user of None \<Rightarrow> JUndefined | Some u \<Rightarrow> opt_str (subscriptionProvider u))"

text \<open>
  \<open>mobileHasPremium\<close> is the \<open>hasPremium\<close> of the \<^verbatim>\<open>usePurchases\<close> hook that
  \<^verbatim>\<open>useHouseholdSubscription\<close> calls. \<^verbatim>\<open>||\<close> associates to the left.
\<close>

definition computedHasPremium ::
  "HouseholdSubscriptionStatus option \<Rightarrow> bool \<Rightarrow> jsval \<Rightarrow> User option \<Rightarrow> jsval" where
  "computedHasPremium householdStatus isNativePlatform mobileHasPremium user =
     js_or (js_or (household_hasPremium householdStatus)
                  (js_and (JBool isNativePlatform) mobileHasPremium))
           (JBool (userIsPremium user))"

definition resolvedProvider ::
  "HouseholdSubscriptionStatus option \<Rightarrow> bool \<Rightarrow> jsval \<Rightarrow> User option \<Rightarrow> jsval" where
  "resolvedProvider householdStatus isNativePlatform mobileHasPremium user =
     js_or (js_or (js_or (household_provider householdStatus)
                         (if truthy (js_and (JBool isNativePlatform) mobileHasPremium)
                          then JStr ''revenuecat'' else JStr ''stripe''))
                  (user_provider user))
           (JStr ''stripe'')"

section \<open>The two purchases hooks of the pricing page (pages/Pricing.tsx)\<close>

text \<open>
  The page calls \<^verbatim>\<open>useHouseholdSubscription()\<close> for the decision, and that hook
  calls \<^verbatim>\<open>usePurchases()\<close> for \<open>mobileHasPremium\<close>; the page then calls
  \<^verbatim>\<open>usePurchases()\<close> itself for \<^verbatim>\<open>purchaseProduct\<close> and
  \<^verbatim>\<open>restorePurchases\<close>. The hook keeps its state with \<^verbatim>\<open>useState\<close>, so each of
  the two calls has state cells of its own: \<open>reconciler_purchases\<close> are the cells the
  decision reads, \<open>page_purchases\<close> the cells a purchase or a restore writes.
  \<^verbatim>\<open>useHouseholdSubscription\<close> hands on neither method, so of the flows that store
  a subscription only \<open>fetchProducts\<close> runs on \<open>reconciler_purchases\<close>, called by
  the hook's own effect once the hook is initialised.
  The household answer and the user record come from queries; no event of the hook
  writes them (nothing in these sources listens for
  \<^verbatim>\<open>subscription-status-changed\<close>).
\<close>

record pricing_page =
  pg_householdStatus :: "HouseholdSubscriptionStatus option"
  pg_user :: "User option"
  reconciler_purchases :: purchases_state
  page_purchases :: purchases_state

text \<open>\<open>hasPremium\<close> as the page gets it from \<^verbatim>\<open>useHouseholdSubscription()\<close>.\<close>

definition page_hasPremium :: "bool \<Rightarrow> pricing_page \<Rightarrow> jsval" where
  "page_hasPremium isNativePlatform pg =
     computedHasPremium (pg_householdStatus pg) isNativePlatform
       (hasPremium (reconciler_purchases pg)) (pg_user pg)"

text \<open>The page after events of its own purchases hook, and of the reconciler's.\<close>

definition page_run :: "pricing_page \<Rightarrow> event list \<Rightarrow> pricing_page" where
  "page_run pg evs = pg\<lparr>page_purchases := after_events (page_purchases pg) evs\<rparr>"

definition reconciler_run :: "pricing_page \<Rightarrow> event list \<Rightarrow> pricing_page" where
  "reconciler_run pg evs = pg\<lparr>reconciler_purchases := after_events (reconciler_purchases pg) evs\<rparr>"

section \<open>Web checkout (pages/Pricing.tsx)\<close>

text \<open>
  \<^verbatim>\<open>String.prototype.trim\<close>. A \<open>char\<close> is a code unit below 256; the white space
  and line terminators that \<^verbatim>\<open>trim\<close> strips are, among these, tab, line feed,
  vertical tab, form feed, carriage return, space and the no-break space U+00A0.
\<close>

definition is_space :: "char \<Rightarrow> bool" where
  "is_space c =
     (c \<in> set [CHR 0x09, CHR 0x0A, CHR 0x0B, CHR 0x0C, CHR 0x0D, CHR 0x20, CHR 0xA0])"

definition trim :: "string \<Rightarrow> string" where
  "trim s = rev (dropWhile is_space (rev (dropWhile is_space s)))"

text \<open>
  What the checkout request answers: the request rejects, or the body does not parse,
  or the parsed body has a \<^verbatim>\<open>url\<close> property or none.
\<close>

datatype checkout_outcome =
    RequestRejects js_thrown
  | JsonRejects js_thrown
  | Data "string option"

definition not_available_toast :: event where
  "not_available_toast =
     Toast ''Not Available''
       ''Web subscriptions are not available in the mobile app. Please use the in-app purchase options.''
       Destructive"

definition checkout_request :: "bool \<Rightarrow> string \<Rightarrow> event" where
  "checkout_request useCoupon couponCode =
     ApiRequest ''POST'' ''/api/create-checkout-session''
       (if useCoupon \<and> trim couponCode \<noteq> [] then [(''couponCode'', trim couponCode)] else [])"

text \<open>The \<^verbatim>\<open>try\<close> block of \<^verbatim>\<open>handleUpgrade\<close>: its events, and the value thrown if any.\<close>

definition handleUpgrade_try ::
  "bool \<Rightarrow> string \<Rightarrow> checkout_outcome \<Rightarrow> bool \<Rightarrow> event list \<times> js_thrown option" where
  "handleUpgrade_try isNativePlatform couponCode outcome useCoupon =
     (if isNativePlatform then ([not_available_toast], None)
      else (case outcome of
          RequestRejects e \<Rightarrow>
            ([SetIsLoading True, checkout_request useCoupon couponCode, ApiSettled False], Some e)
        | JsonRejects e \<Rightarrow>
            ([SetIsLoading True, checkout_request useCoupon couponCode, ApiSettled True], Some e)
        | Data url \<Rightarrow>
            (case url of
                Some u \<Rightarrow>
                  if truthy (JStr u)
                  then ([SetIsLoading True, checkout_request useCoupon couponCode,
                         ApiSettled True, FormSubmit u], None)
                  else ([SetIsLoading True, checkout_request useCoupon couponCode,
                         ApiSettled True], Some (JsError ''No checkout URL received''))
              | None \<Rightarrow>
                  ([SetIsLoading True, checkout_request useCoupon couponCode, ApiSettled True],
                   Some (JsError ''No checkout URL received'')))))"

definition handleUpgrade :: "bool \<Rightarrow> string \<Rightarrow> checkout_outcome \<Rightarrow> bool \<Rightarrow> event list" where
  "handleUpgrade isNativePlatform couponCode outcome useCoupon =
     (case handleUpgrade_try isNativePlatform couponCode outcome useCoupon of
        (evs, None) \<Rightarrow> evs
      | (evs, Some e) \<Rightarrow>
          evs @ [Toast ''Checkout Error''
                   (error_message_else e ''Failed to start checkout process'') Destructive,
                 SetIsLoading False])"

section \<open>Reference readings and example inputs\<close>

text \<open>
  The reading of \<open>hasActiveSubscription\<close> to compare the code with: premium plan,
  active status, and an end date that is absent or strictly later than the clock.
  A date that is no date (NaN) is not later than anything.
\<close>

fun date_gt :: "Date \<Rightarrow> Date \<Rightarrow> bool" where
  "date_gt (Date (Some a)) (Date (Some b)) = (a > b)"
| "date_gt _ _ = False"

definition claimed_hasActiveSubscription ::
  "(string \<Rightarrow> int option) \<Rightarrow> int \<Rightarrow> string option \<Rightarrow> string option \<Rightarrow>
   DateOrString option \<Rightarrow> bool" where
  "claimed_hasActiveSubscription Date_parse now plan status endsAt =
     (plan = Some ''premium'' \<and> status = Some ''active''
      \<and> (case endsAt of None \<Rightarrow> True
          | Some e \<Rightarrow> date_gt (new_Date Date_parse e) (Date (Some now))))"

text \<open>
  For the examples, \<^verbatim>\<open>Date.parse\<close> is needed at two strings only: an ISO date
  (1 January 2030, 00:00 UTC) and a string that is no date. This function answers as
  \<^verbatim>\<open>Date.parse\<close> does on both; it stands for it nowhere else.
\<close>

definition example_Date_parse :: "string \<Rightarrow> int option" where
  "example_Date_parse s = (if s = ''2030-01-01T00:00:00.000Z'' then Some 1893456000000 else None)"

text \<open>A hook that is initialised and holds no subscription yet.\<close>

definition ready_state :: purchases_state where
  "ready_state = \<lparr> isInitialized = True, isLoading = False, products = [],
     activeSubscription = None \<rparr>"

definition premium_monthly :: ActiveSubscription where
  "premium_monthly = \<lparr> productId = ''my_branches_premium_monthly'', isActive = True,
     renewalDate = Some 1893456000000, expirationDate = Some 1893456000000 \<rparr>"

definition purchase_ok :: PurchaseResult where
  "purchase_ok = \<lparr> success = True, customerInfo = Some (CustomerInfo ''user-1''), error = None \<rparr>"

definition purchase_failed :: "string \<Rightarrow> string \<Rightarrow> PurchaseResult" where
  "purchase_failed m c = \<lparr> success = False, customerInfo = None,
     error = Some \<lparr> message = m, code = c \<rparr> \<rparr>"

text \<open>The provider succeeds, the SDK reports the subscription, the backend call fails.\<close>

definition env_verify_fails :: purchases_env where
  "env_verify_fails = \<lparr> products_outcome = Inr [],
     purchase_outcome = Inr purchase_ok, restore_outcome = Inr purchase_ok,
     active_outcome = Inr (Some premium_monthly),
     verify_outcome = Inl (JsError ''500: Internal Server Error'') \<rparr>"

text \<open>The provider answers with an error of the given message and code.\<close>

definition env_purchase_fails :: "string \<Rightarrow> string \<Rightarrow> purchases_env" where
  "env_purchase_fails m c = \<lparr> products_outcome = Inr [],
     purchase_outcome = Inr (purchase_failed m c),
     restore_outcome = Inr (purchase_failed m c),
     active_outcome = Inr None, verify_outcome = Inr () \<rparr>"

definition household_basic :: HouseholdSubscriptionStatus where
  "household_basic = \<lparr> hs_hasPremium = False, hs_subscriptionProvider = None \<rparr>"

text \<open>
  A page on which nothing reports premium: the household has none, both hooks are
  initialised and hold no subscription, and no user record is loaded.
\<close>

definition example_page :: pricing_page where
  "example_page = \<lparr> pg_householdStatus = Some household_basic, pg_user = None,
     reconciler_purchases = ready_state, page_purchases = ready_state \<rparr>"

definition premium_user_revenuecat :: User where
  "premium_user_revenuecat =
     \<lparr> subscriptionPlan = Some ''premium'', subscriptionProvider = Some ''revenuecat'' \<rparr>"

section \<open>Unfolding rules and shapes of the traces\<close>

lemmas examples = ready_state_def premium_monthly_def purchase_ok_def purchase_failed_def
  env_verify_fails_def env_purchase_fails_def household_basic_def premium_user_revenuecat_def
  example_page_def

lemmas page_defs = page_hasPremium_def page_run_def reconciler_run_def

lemmas flow_defs = purchaseProduct_def purchaseProduct_try_def restorePurchases_def
  restorePurchases_try_def verifyWithBackend_def verify_request_def purchase_success_toast_def
  message_or_def

lemmas reconciler_defs = computedHasPremium_def resolvedProvider_def household_hasPremium_def
  household_provider_def userIsPremium_def user_provider_def hasPremium_def js_or_def js_and_def

lemma fetchProducts_no_backend:
  "filter is_backend_event (fetchProducts st isNativePlatform env) = []"
  by (auto simp: fetchProducts_def fetchProducts_try_def split: sum.splits)

lemma fetchProducts_stores_sdk_state:
  assumes "isInitialized st" and "isNativePlatform"
    and "products_outcome env = Inr ps" and "active_outcome env = Inr a"
  shows "hasPremium (after_events st (fetchProducts st isNativePlatform env))
     = JBool (\<exists>x. a = Some x \<and> isActive x)"
  using assms
  by (auto simp: fetchProducts_def fetchProducts_try_def hasPremium_def after_events_def
      js_or_def split: option.splits)

lemma handleUpgrade_web_requests:
  "filter is_api_request (handleUpgrade False couponCode outcome useCoupon)
     = [checkout_request useCoupon couponCode]"
  by (auto simp: handleUpgrade_def handleUpgrade_try_def checkout_request_def
      split: checkout_outcome.splits option.splits)

lemma resolvedProvider_cases:
  "resolvedProvider householdStatus isNativePlatform mobileHasPremium user =
     (case household_provider householdStatus of
        JStr s \<Rightarrow> JStr s
      | _ \<Rightarrow> if isNativePlatform \<and> truthy mobileHasPremium
             then JStr ''revenuecat'' else JStr ''stripe'')"
  by (cases householdStatus; cases "hs_subscriptionProvider (the householdStatus)";
      cases "the (hs_subscriptionProvider (the householdStatus))")
     (auto simp: reconciler_defs split: jsval.splits)

lemma verifyWithBackend_shape:
  "verifyWithBackend True env = [verify_request, ApiSettled False]
   \<or> verifyWithBackend True env =
        [verify_request, ApiSettled True, ScheduleDispatch 1000 ''subscription-status-changed'']"
  by (simp add: verifyWithBackend_def split: sum.splits)

lemma purchaseProduct_success_trace:
  assumes "isInitialized st" and "isNativePlatform"
    and "purchase_outcome env = Inr res" and "success res" and "customerInfo res \<noteq> None"
    and "active_outcome env = Inr a"
  shows "purchaseProduct st isNativePlatform env pid =
     ([SetIsLoading True, ServicePurchase pid, ServiceGetActiveSubscription,
       SetActiveSubscription a] @ verifyWithBackend True env
      @ [purchase_success_toast, SetIsLoading False], True)"
  using assms by (simp add: purchaseProduct_def purchaseProduct_try_def)

lemma purchaseProduct_no_verify:
  assumes "\<not> (isInitialized st \<and> isNativePlatform
      \<and> (\<exists>res a. purchase_outcome env = Inr res \<and> success res \<and> customerInfo res \<noteq> None
            \<and> active_outcome env = Inr a))"
  shows "verify_request \<notin> set (fst (purchaseProduct st isNativePlatform env pid))
     \<and> purchase_success_toast \<notin> set (fst (purchaseProduct st isNativePlatform env pid))"
  using assms
  by (auto simp: purchaseProduct_def purchaseProduct_try_def verify_request_def
      purchase_success_toast_def split: sum.splits option.splits)

lemma restorePurchases_success_trace:
  assumes "isInitialized st" and "isNativePlatform"
    and "restore_outcome env = Inr res" and "success res" and "customerInfo res \<noteq> None"
    and "active_outcome env = Inr a"
  shows "restorePurchases st isNativePlatform env =
     ([SetIsLoading True, ServiceRestore, ServiceGetActiveSubscription,
       SetActiveSubscription a] @ verifyWithBackend True env
      @ [if (case a of None \<Rightarrow> False | Some x \<Rightarrow> isActive x)
         then Toast ''Purchases Restored!'' ''Your Premium subscription has been restored.'' Default
         else Toast ''No Purchases Found'' ''No active subscriptions found to restore.'' Default,
         SetIsLoading False], True)"
  using assms by (simp add: restorePurchases_def restorePurchases_try_def)

lemma restorePurchases_no_verify:
  assumes "\<not> (isInitialized st \<and> isNativePlatform
      \<and> (\<exists>res a. restore_outcome env = Inr res \<and> success res \<and> customerInfo res \<noteq> None
            \<and> active_outcome env = Inr a))"
  shows "verify_request \<notin> set (fst (restorePurchases st isNativePlatform env))"
  using assms
  by (auto simp: restorePurchases_def restorePurchases_try_def verify_request_def
      split: sum.splits option.splits)

lemma stored_before_request:
  assumes "t = [SetIsLoading True, call, ServiceGetActiveSubscription, SetActiveSubscription a]
       @ verifyWithBackend True env @ tail"
    and "call = ServicePurchase pid \<or> call = ServiceRestore"
  shows "takeWhile (\<lambda>e. e \<noteq> verify_request) t =
       [SetIsLoading True, call, ServiceGetActiveSubscription, SetActiveSubscription a]"
  using assms verifyWithBackend_shape [of env]
  by (auto simp: verify_request_def)

lemma hasPremium_after_store:
  "hasPremium (after_events st
      [SetIsLoading True, call, ServiceGetActiveSubscription, SetActiveSubscription a])
     = JBool (\<exists>x. a = Some x \<and> isActive x)"
  by (cases call) (auto simp: hasPremium_def after_events_def js_or_def split: option.splits)

lemma computedHasPremium_JBool:
  "computedHasPremium householdStatus isNativePlatform (JBool m) user =
     JBool ((\<exists>h. householdStatus = Some h \<and> hs_hasPremium h)
            \<or> (isNativePlatform \<and> m) \<or> userIsPremium user)"
  by (auto simp: computedHasPremium_def household_hasPremium_def js_or_def js_and_def
      split: option.splits)


section \<open>Properties\<close>

subsection \<open>Entitlement reconciler\<close>

text \<open>
  C1. For every household answer (missing or not), native-platform flag, state of the
  purchases hook and user record (missing or not), the reconciler's decision is the
  boolean: household reports premium, or the platform is native and the hook's
  subscription is active, or the user's plan is premium. A missing source counts as
  false; the three signals are joined by OR.
\<close>

theorem computedHasPremium_is_or:
  "computedHasPremium householdStatus isNativePlatform (hasPremium st) user =
     JBool ((\<exists>h. householdStatus = Some h \<and> hs_hasPremium h)
            \<or> (isNativePlatform \<and> (\<exists>a. activeSubscription st = Some a \<and> isActive a))
            \<or> (\<exists>u. user = Some u \<and> subscriptionPlan u = Some ''premium''))"
  by (auto simp: reconciler_defs split: option.splits)

text \<open>
  C5. Off the native platform, with a household that reports no premium and no provider,
  and a user whose plan is premium and whose stored provider is \<open>revenuecat\<close>, the
  decision is premium and the provider label the code computes is \<open>stripe\<close>: the
  middle operand of the chain is a non-empty string in both branches, so the user's
  stored provider behind it is never reached.
\<close>

theorem resolvedProvider_ignores_user_provider:
  "computedHasPremium (Some household_basic) False (hasPremium ready_state)
     (Some premium_user_revenuecat) = JBool True
   \<and> user_provider (Some premium_user_revenuecat) = JStr ''revenuecat''
   \<and> resolvedProvider (Some household_basic) False (hasPremium ready_state)
       (Some premium_user_revenuecat) = JStr ''stripe''"
  by (simp add: examples reconciler_defs)

subsection \<open>Purchase flow\<close>

text \<open>
  In the theorems below \<open>pg\<close> is the pricing page: a purchase or a restore runs on
  \<open>page_purchases pg\<close>, and the decision \<open>page_hasPremium\<close> reads
  \<open>reconciler_purchases pg\<close>.
\<close>

text \<open>
  C2, as claimed, fails, in two ways. The state update does not wait for the
  verification: with the provider succeeding and the SDK reporting the subscription, the
  first four events of \<open>purchaseProduct\<close> end with the store into
  \<open>activeSubscription\<close>, after which the purchasing hook's \<open>hasPremium\<close> is true;
  the verification request is the fifth event and its failure the sixth. And what the
  client reports is enough for a premium decision: on a page whose decision is not
  premium, the reconciler's hook running \<open>fetchProducts\<close> while the SDK reports the
  subscription makes the decision premium, with no request among the events.
\<close>

theorem premium_before_verification_counterexample:
  "take 6 (fst (purchaseProduct (page_purchases example_page) True env_verify_fails
       ''my_branches_premium_monthly''))
     = [SetIsLoading True, ServicePurchase ''my_branches_premium_monthly'',
        ServiceGetActiveSubscription, SetActiveSubscription (Some premium_monthly),
        verify_request, ApiSettled False]
   \<and> hasPremium (page_purchases (page_run example_page
        (take 4 (fst (purchaseProduct (page_purchases example_page) True env_verify_fails
           ''my_branches_premium_monthly''))))) = JBool True
   \<and> page_hasPremium True example_page = JBool False
   \<and> filter is_backend_event
        (fetchProducts (reconciler_purchases example_page) True env_verify_fails) = []
   \<and> page_hasPremium True (reconciler_run example_page
        (fetchProducts (reconciler_purchases example_page) True env_verify_fails)) = JBool True"
  by (simp add: examples flow_defs reconciler_defs page_defs after_events_def fetchProducts_def
      fetchProducts_try_def)

text \<open>
  C2, amended. In every run of \<open>purchaseProduct\<close> (trace \<open>tp\<close>) and of
  \<open>restorePurchases\<close> (trace \<open>tr\<close>) on the page's hook: no verification request
  is issued before the provider call, and one is issued only if the provider call
  reported success; when it did, on an initialised hook on a native platform and with
  the SDK's subscription read, exactly one request is issued and settles; the success
  toast of a purchase comes only after the verification call has settled. The run
  leaves the page's decision as it was, after every number of its events, before the
  verification and after it. The purchasing hook, though, has
  stored the SDK's subscription when the request is issued: in the state just before
  the request its own \<open>hasPremium\<close> is the SDK's \<open>isActive\<close>. And the decision
  follows the SDK without any verification: when the reconciler's hook, initialised on a
  native platform, runs \<open>fetchProducts\<close>, no request is among the events, and the
  decision after them is household premium, or SDK subscription active, or user premium.
\<close>

theorem verification_order:
  assumes "tp = fst (purchaseProduct (page_purchases pg) isNativePlatform env pid)"
    and "tr = fst (restorePurchases (page_purchases pg) isNativePlatform env)"
  shows "precedes (ServicePurchase pid) verify_request tp
   \<and> precedes ServiceRestore verify_request tr
   \<and> (verify_request \<in> set tp \<longrightarrow>
        (\<exists>res. purchase_outcome env = Inr res \<and> success res \<and> customerInfo res \<noteq> None))
   \<and> (verify_request \<in> set tr \<longrightarrow>
        (\<exists>res. restore_outcome env = Inr res \<and> success res \<and> customerInfo res \<noteq> None))
   \<and> (purchase_success_toast \<in> set tp \<longrightarrow>
        ApiSettled True \<in> set (takeWhile (\<lambda>e. e \<noteq> purchase_success_toast) tp)
        \<or> ApiSettled False \<in> set (takeWhile (\<lambda>e. e \<noteq> purchase_success_toast) tp))
   \<and> (isInitialized (page_purchases pg) \<and> isNativePlatform
        \<and> (\<exists>res a. purchase_outcome env = Inr res \<and> success res \<and> customerInfo res \<noteq> None
              \<and> active_outcome env = Inr a) \<longrightarrow>
        filter is_backend_event tp = [verify_request, ApiSettled True]
        \<or> filter is_backend_event tp = [verify_request, ApiSettled False])
   \<and> (isInitialized (page_purchases pg) \<and> isNativePlatform
        \<and> (\<exists>res a. restore_outcome env = Inr res \<and> success res \<and> customerInfo res \<noteq> None
              \<and> active_outcome env = Inr a) \<longrightarrow>
        filter is_backend_event tr = [verify_request, ApiSettled True]
        \<or> filter is_backend_event tr = [verify_request, ApiSettled False])
   \<and> (\<forall>n. page_hasPremium isNativePlatform (page_run pg (take n tp))
            = page_hasPremium isNativePlatform pg
          \<and> page_hasPremium isNativePlatform (page_run pg (take n tr))
            = page_hasPremium isNativePlatform pg)
   \<and> (\<forall>t. (t = tp \<or> t = tr) \<and> verify_request \<in> set t \<longrightarrow>
        (\<exists>a. active_outcome env = Inr a
           \<and> SetActiveSubscription a \<in> set (takeWhile (\<lambda>e. e \<noteq> verify_request) t)
           \<and> hasPremium (page_purchases (page_run pg (takeWhile (\<lambda>e. e \<noteq> verify_request) t)))
               = JBool (\<exists>x. a = Some x \<and> isActive x)))
   \<and> (isInitialized (reconciler_purchases pg) \<and> isNativePlatform
        \<and> products_outcome fenv = Inr ps \<and> active_outcome fenv = Inr fa \<longrightarrow>
        filter is_backend_event (fetchProducts (reconciler_purchases pg) isNativePlatform fenv) = []
        \<and> page_hasPremium isNativePlatform
             (reconciler_run pg (fetchProducts (reconciler_purchases pg) isNativePlatform fenv))
           = JBool ((\<exists>h. pg_householdStatus pg = Some h \<and> hs_hasPremium h)
                    \<or> (\<exists>x. fa = Some x \<and> isActive x) \<or> userIsPremium (pg_user pg)))"
proof -
  let ?st = "page_purchases pg"
  let ?okp = "isInitialized ?st \<and> isNativePlatform
      \<and> (\<exists>res a. purchase_outcome env = Inr res \<and> success res \<and> customerInfo res \<noteq> None
            \<and> active_outcome env = Inr a)"
  let ?okr = "isInitialized ?st \<and> isNativePlatform
      \<and> (\<exists>res a. restore_outcome env = Inr res \<and> success res \<and> customerInfo res \<noteq> None
            \<and> active_outcome env = Inr a)"
  let ?Q = "\<lambda>t. \<exists>a. active_outcome env = Inr a
           \<and> SetActiveSubscription a \<in> set (takeWhile (\<lambda>e. e \<noteq> verify_request) t)
           \<and> hasPremium (page_purchases (page_run pg (takeWhile (\<lambda>e. e \<noteq> verify_request) t)))
               = JBool (\<exists>x. a = Some x \<and> isActive x)"
  have purchase: "precedes (ServicePurchase pid) verify_request tp
      \<and> (verify_request \<in> set tp \<longrightarrow> ?okp \<and> ?Q tp)
      \<and> (?okp \<longrightarrow> filter is_backend_event tp = [verify_request, ApiSettled True]
            \<or> filter is_backend_event tp = [verify_request, ApiSettled False])
      \<and> (purchase_success_toast \<in> set tp \<longrightarrow>
        ApiSettled True \<in> set (takeWhile (\<lambda>e. e \<noteq> purchase_success_toast) tp)
        \<or> ApiSettled False \<in> set (takeWhile (\<lambda>e. e \<noteq> purchase_success_toast) tp))"
  proof (cases ?okp)
    case False
    have nv: "verify_request \<notin> set tp" "purchase_success_toast \<notin> set tp"
      using purchaseProduct_no_verify [OF False, of pid] by (simp_all add: assms(1))
    have "precedes (ServicePurchase pid) verify_request tp"
      unfolding precedes_def using nv(1) by (meson set_takeWhileD)
    with nv False show ?thesis by blast
  next
    case True
    then obtain res a where h: "isInitialized ?st" "isNativePlatform"
      "purchase_outcome env = Inr res" "success res" "customerInfo res \<noteq> None"
      "active_outcome env = Inr a" by blast
    have tp: "tp = [SetIsLoading True, ServicePurchase pid, ServiceGetActiveSubscription,
        SetActiveSubscription a] @ verifyWithBackend True env
        @ [purchase_success_toast, SetIsLoading False]"
      by (simp add: assms(1) purchaseProduct_success_trace [OF h])
    have pre: "takeWhile (\<lambda>e. e \<noteq> verify_request) tp =
        [SetIsLoading True, ServicePurchase pid, ServiceGetActiveSubscription,
         SetActiveSubscription a]"
      by (rule stored_before_request [OF tp]) simp
    have q: "?Q tp"
      unfolding pre page_run_def using h hasPremium_after_store [of ?st "ServicePurchase pid" a]
      by simp
    have ord: "precedes (ServicePurchase pid) verify_request tp"
      by (simp add: precedes_def tp verify_request_def)
    have settled: "ApiSettled True \<in> set (takeWhile (\<lambda>e. e \<noteq> purchase_success_toast) tp)
        \<or> ApiSettled False \<in> set (takeWhile (\<lambda>e. e \<noteq> purchase_success_toast) tp)"
      using verifyWithBackend_shape [of env]
      by (auto simp: tp verify_request_def purchase_success_toast_def)
    have issued: "filter is_backend_event tp = [verify_request, ApiSettled True]
        \<or> filter is_backend_event tp = [verify_request, ApiSettled False]"
      using verifyWithBackend_shape [of env]
      by (auto simp: tp verify_request_def purchase_success_toast_def)
    from True q ord settled issued show ?thesis by blast
  qed
  have restore: "precedes ServiceRestore verify_request tr
      \<and> (verify_request \<in> set tr \<longrightarrow> ?okr \<and> ?Q tr)
      \<and> (?okr \<longrightarrow> filter is_backend_event tr = [verify_request, ApiSettled True]
            \<or> filter is_backend_event tr = [verify_request, ApiSettled False])"
  proof (cases ?okr)
    case False
    have nv: "verify_request \<notin> set tr"
      using restorePurchases_no_verify [OF False] by (simp add: assms(2))
    have "precedes ServiceRestore verify_request tr"
      unfolding precedes_def using nv by (meson set_takeWhileD)
    with nv False show ?thesis by blast
  next
    case True
    then obtain res a where h: "isInitialized ?st" "isNativePlatform"
      "restore_outcome env = Inr res" "success res" "customerInfo res \<noteq> None"
      "active_outcome env = Inr a" by blast
    obtain tail where tr: "tr = [SetIsLoading True, ServiceRestore, ServiceGetActiveSubscription,
        SetActiveSubscription a] @ verifyWithBackend True env @ tail"
      and tail: "filter is_backend_event tail = []"
      by (simp add: assms(2) restorePurchases_success_trace [OF h])
    have pre: "takeWhile (\<lambda>e. e \<noteq> verify_request) tr =
        [SetIsLoading True, ServiceRestore, ServiceGetActiveSubscription,
         SetActiveSubscription a]"
      by (rule stored_before_request [OF tr]) simp
    have q: "?Q tr"
      unfolding pre page_run_def using h hasPremium_after_store [of ?st ServiceRestore a]
      by simp
    have ord: "precedes ServiceRestore verify_request tr"
      by (simp add: precedes_def tr verify_request_def)
    have issued: "filter is_backend_event tr = [verify_request, ApiSettled True]
        \<or> filter is_backend_event tr = [verify_request, ApiSettled False]"
      using verifyWithBackend_shape [of env]
      by (auto simp: tr tail verify_request_def)
    from True q ord issued show ?thesis by blast
  qed
  have frame: "\<forall>n. page_hasPremium isNativePlatform (page_run pg (take n tp))
            = page_hasPremium isNativePlatform pg
          \<and> page_hasPremium isNativePlatform (page_run pg (take n tr))
            = page_hasPremium isNativePlatform pg"
    by (simp add: page_hasPremium_def page_run_def)
  have fetch: "isInitialized (reconciler_purchases pg) \<and> isNativePlatform
        \<and> products_outcome fenv = Inr ps \<and> active_outcome fenv = Inr fa \<longrightarrow>
        filter is_backend_event (fetchProducts (reconciler_purchases pg) isNativePlatform fenv) = []
        \<and> page_hasPremium isNativePlatform
             (reconciler_run pg (fetchProducts (reconciler_purchases pg) isNativePlatform fenv))
           = JBool ((\<exists>h. pg_householdStatus pg = Some h \<and> hs_hasPremium h)
                    \<or> (\<exists>x. fa = Some x \<and> isActive x) \<or> userIsPremium (pg_user pg))"
  proof
    assume h: "isInitialized (reconciler_purchases pg) \<and> isNativePlatform
        \<and> products_outcome fenv = Inr ps \<and> active_outcome fenv = Inr fa"
    then have st: "hasPremium (after_events (reconciler_purchases pg)
          (fetchProducts (reconciler_purchases pg) isNativePlatform fenv))
        = JBool (\<exists>x. fa = Some x \<and> isActive x)"
      by (simp add: fetchProducts_stores_sdk_state)
    from h st show "filter is_backend_event
          (fetchProducts (reconciler_purchases pg) isNativePlatform fenv) = []
        \<and> page_hasPremium isNativePlatform
             (reconciler_run pg (fetchProducts (reconciler_purchases pg) isNativePlatform fenv))
           = JBool ((\<exists>h. pg_householdStatus pg = Some h \<and> hs_hasPremium h)
                    \<or> (\<exists>x. fa = Some x \<and> isActive x) \<or> userIsPremium (pg_user pg))"
      by (simp add: fetchProducts_no_backend page_hasPremium_def reconciler_run_def
          computedHasPremium_JBool)
  qed
  from purchase restore frame fetch show ?thesis by blast
qed

theorem verification_order_witness:
  "verify_request \<in> set (fst (purchaseProduct (page_purchases example_page) True
       env_verify_fails ''my_branches_premium_monthly''))
   \<and> verify_request \<in> set (fst (restorePurchases (page_purchases example_page) True
       env_verify_fails))
   \<and> purchase_success_toast \<in> set (fst (purchaseProduct (page_purchases example_page) True
       env_verify_fails ''my_branches_premium_monthly''))
   \<and> isInitialized (page_purchases example_page)
   \<and> purchase_outcome env_verify_fails = Inr purchase_ok
   \<and> restore_outcome env_verify_fails = Inr purchase_ok
   \<and> success purchase_ok \<and> customerInfo purchase_ok \<noteq> None
   \<and> filter is_backend_event (fst (purchaseProduct (page_purchases example_page) True
        env_verify_fails ''my_branches_premium_monthly'')) = [verify_request, ApiSettled False]
   \<and> isInitialized (reconciler_purchases example_page)
   \<and> products_outcome env_verify_fails = Inr []
   \<and> active_outcome env_verify_fails = Inr (Some premium_monthly)
   \<and> precedes (ServicePurchase ''my_branches_premium_monthly'') verify_request
       (fst (purchaseProduct (page_purchases example_page) True env_verify_fails
          ''my_branches_premium_monthly''))
   \<and> precedes ServiceRestore verify_request
       (fst (restorePurchases (page_purchases example_page) True env_verify_fails))
   \<and> page_hasPremium True (page_run example_page
        (take 6 (fst (purchaseProduct (page_purchases example_page) True env_verify_fails
           ''my_branches_premium_monthly'')))) = JBool False
   \<and> hasPremium (page_purchases (page_run example_page
        (takeWhile (\<lambda>e. e \<noteq> verify_request)
           (fst (purchaseProduct (page_purchases example_page) True env_verify_fails
              ''my_branches_premium_monthly''))))) = JBool True
   \<and> page_hasPremium True (reconciler_run example_page
        (fetchProducts (reconciler_purchases example_page) True env_verify_fails)) = JBool True"
proof -
  note w = verification_order [OF refl refl, where pg = example_page and isNativePlatform = True
      and env = env_verify_fails and pid = "''my_branches_premium_monthly''"
      and fenv = env_verify_fails and ps = "[]" and fa = "Some premium_monthly"]
  have req: "verify_request \<in> set (fst (purchaseProduct (page_purchases example_page) True
       env_verify_fails ''my_branches_premium_monthly''))"
    by (simp add: examples flow_defs)
  have req': "verify_request \<in> set (fst (restorePurchases (page_purchases example_page) True
       env_verify_fails))"
    by (simp add: examples flow_defs)
  have toast: "purchase_success_toast \<in> set (fst (purchaseProduct (page_purchases example_page)
       True env_verify_fails ''my_branches_premium_monthly''))"
    by (simp add: examples flow_defs)
  have hyp: "isInitialized (reconciler_purchases example_page)"
    "products_outcome env_verify_fails = Inr []"
    "active_outcome env_verify_fails = Inr (Some premium_monthly)"
    by (simp_all add: examples)
  have hyp': "isInitialized (page_purchases example_page)"
    "purchase_outcome env_verify_fails = Inr purchase_ok"
    "restore_outcome env_verify_fails = Inr purchase_ok"
    "success purchase_ok" "customerInfo purchase_ok \<noteq> None"
    by (simp_all add: examples)
  have issued: "filter is_backend_event (fst (purchaseProduct (page_purchases example_page) True
        env_verify_fails ''my_branches_premium_monthly'')) = [verify_request, ApiSettled False]"
    by (simp add: examples flow_defs)
  have before: "page_hasPremium True example_page = JBool False"
    by (simp add: examples reconciler_defs page_defs)
  have act: "isActive premium_monthly" by (simp add: examples)
  from w have frame: "page_hasPremium True (page_run example_page
        (take 6 (fst (purchaseProduct (page_purchases example_page) True env_verify_fails
           ''my_branches_premium_monthly'')))) = page_hasPremium True example_page"
    by blast
  from w req hyp(3) have stored: "hasPremium (page_purchases (page_run example_page
        (takeWhile (\<lambda>e. e \<noteq> verify_request)
           (fst (purchaseProduct (page_purchases example_page) True env_verify_fails
              ''my_branches_premium_monthly''))))) = JBool (isActive premium_monthly)"
    by auto
  from w hyp act have fetched: "page_hasPremium True (reconciler_run example_page
        (fetchProducts (reconciler_purchases example_page) True env_verify_fails)) = JBool True"
    by auto
  from w req req' toast hyp hyp' issued before frame stored fetched act show ?thesis by simp
qed

text \<open>
  C3, as claimed, fails in its second half. The provider succeeds, the SDK reports the
  subscription, the one verification request is issued and fails:
  \<open>purchaseProduct\<close> returns true, and the only toast of the run is the success
  toast.
\<close>

theorem verification_failure_reported_as_success_counterexample:
  "snd (purchaseProduct (page_purchases example_page) True env_verify_fails
       ''my_branches_premium_monthly'') = True
   \<and> filter is_backend_event
       (fst (purchaseProduct (page_purchases example_page) True env_verify_fails
          ''my_branches_premium_monthly''))
       = [ApiRequest ''POST'' ''/api/revenuecat/verify'' [], ApiSettled False]
   \<and> filter is_toast
       (fst (purchaseProduct (page_purchases example_page) True env_verify_fails
          ''my_branches_premium_monthly''))
       = [Toast ''Purchase Successful!''
            ''Welcome to Premium! Your subscription is now active.'' Default]"
  by (simp add: examples flow_defs)

text \<open>
  C3, amended. When the provider purchase succeeds, the SDK's subscription is read and
  the verification call fails, the page's decision after the run is what it was before
  the run (so it remains non-premium where it was non-premium): the run writes neither
  the household answer nor the hook the decision reads. But no error is surfaced: the
  one verification request is issued and settles with a failure, which
  \<open>verifyWithBackend\<close> catches; \<open>purchaseProduct\<close> returns true and shows the
  success toast and no other, schedules no refresh of the household status, and ends
  with \<open>isLoading\<close> false.
\<close>

theorem purchase_with_failed_verification:
  assumes "isInitialized (page_purchases pg)" and "isNativePlatform"
    and "purchase_outcome env = Inr res" and "success res" and "customerInfo res = Some ci"
    and "active_outcome env = Inr a" and "verify_outcome env = Inl e"
    and "run = purchaseProduct (page_purchases pg) isNativePlatform env pid"
  shows "snd run = True
   \<and> filter is_backend_event (fst run) = [verify_request, ApiSettled False]
   \<and> filter is_toast (fst run) = [purchase_success_toast]
   \<and> ScheduleDispatch 1000 ''subscription-status-changed'' \<notin> set (fst run)
   \<and> isLoading (page_purchases (page_run pg (fst run))) = False
   \<and> page_hasPremium isNativePlatform (page_run pg (fst run))
       = page_hasPremium isNativePlatform pg
   \<and> page_hasPremium isNativePlatform (page_run pg (fst run))
       = JBool ((\<exists>h. pg_householdStatus pg = Some h \<and> hs_hasPremium h)
                \<or> (\<exists>x. activeSubscription (reconciler_purchases pg) = Some x \<and> isActive x)
                \<or> userIsPremium (pg_user pg))"
proof -
  have res: "customerInfo res \<noteq> None" using assms(5) by simp
  have v: "verifyWithBackend True env = [verify_request, ApiSettled False]"
    using assms(7) by (simp add: verifyWithBackend_def)
  have run: "run = ([SetIsLoading True, ServicePurchase pid, ServiceGetActiveSubscription,
       SetActiveSubscription a, verify_request, ApiSettled False,
       purchase_success_toast, SetIsLoading False], True)"
    using purchaseProduct_success_trace [OF assms(1,2,3,4) res assms(6), of pid] v
    by (simp add: assms(8))
  have dec: "page_hasPremium isNativePlatform (page_run pg (fst run))
       = page_hasPremium isNativePlatform pg"
    by (simp add: page_hasPremium_def page_run_def)
  have val: "page_hasPremium isNativePlatform pg
       = JBool ((\<exists>h. pg_householdStatus pg = Some h \<and> hs_hasPremium h)
                \<or> (\<exists>x. activeSubscription (reconciler_purchases pg) = Some x \<and> isActive x)
                \<or> userIsPremium (pg_user pg))"
    using assms(2)
    by (auto simp: page_hasPremium_def reconciler_defs split: option.splits)
  have ev: "snd run = True
   \<and> filter is_backend_event (fst run) = [verify_request, ApiSettled False]
   \<and> filter is_toast (fst run) = [purchase_success_toast]
   \<and> ScheduleDispatch 1000 ''subscription-status-changed'' \<notin> set (fst run)
   \<and> isLoading (page_purchases (page_run pg (fst run))) = False"
    by (simp add: run verify_request_def purchase_success_toast_def page_run_def
        after_events_def)
  from ev dec val show ?thesis by simp
qed

theorem purchase_with_failed_verification_witness:
  "isInitialized (page_purchases example_page)
   \<and> purchase_outcome env_verify_fails = Inr purchase_ok \<and> success purchase_ok
   \<and> customerInfo purchase_ok = Some (CustomerInfo ''user-1'')
   \<and> active_outcome env_verify_fails = Inr (Some premium_monthly)
   \<and> verify_outcome env_verify_fails = Inl (JsError ''500: Internal Server Error'')
   \<and> snd (purchaseProduct (page_purchases example_page) True env_verify_fails
        ''my_branches_premium_annual'') = True
   \<and> filter is_backend_event
       (fst (purchaseProduct (page_purchases example_page) True env_verify_fails
          ''my_branches_premium_annual'')) = [verify_request, ApiSettled False]
   \<and> filter is_toast
       (fst (purchaseProduct (page_purchases example_page) True env_verify_fails
          ''my_branches_premium_annual'')) = [purchase_success_toast]
   \<and> page_hasPremium True example_page = JBool False
   \<and> page_hasPremium True (page_run example_page
        (fst (purchaseProduct (page_purchases example_page) True env_verify_fails
           ''my_branches_premium_annual''))) = JBool False"
proof -
  have h: "isInitialized (page_purchases example_page)" "True"
    "purchase_outcome env_verify_fails = Inr purchase_ok" "success purchase_ok"
    "customerInfo purchase_ok = Some (CustomerInfo ''user-1'')"
    "active_outcome env_verify_fails = Inr (Some premium_monthly)"
    "verify_outcome env_verify_fails = Inl (JsError ''500: Internal Server Error'')"
    by (simp_all add: examples)
  have before: "page_hasPremium True example_page = JBool False"
    by (simp add: examples reconciler_defs page_defs)
  from purchase_with_failed_verification [where pid = "''my_branches_premium_annual''",
      OF h refl] h before
  show ?thesis by simp
qed

text \<open>
  C9. When the provider answers a purchase with an error, \<open>purchaseProduct\<close>
  returns false; with the code \<open>PURCHASE_CANCELLED\<close> the run shows no toast at all,
  with any other code it shows exactly one, the destructive toast "Purchase Failed"
  carrying the provider's message.
\<close>

theorem cancelled_purchase_is_silent:
  assumes "isInitialized st" and "isNativePlatform"
    and "purchase_outcome env = Inr res" and "\<not> (success res \<and> customerInfo res \<noteq> None)"
    and "error res = Some err"
  shows "snd (purchaseProduct st isNativePlatform env pid) = False
   \<and> filter is_toast (fst (purchaseProduct st isNativePlatform env pid))
       = (if code err = ''PURCHASE_CANCELLED'' then []
          else [Toast ''Purchase Failed'' (message err) Destructive])"
  using assms
  by (auto simp: flow_defs)

theorem cancelled_purchase_is_silent_witness:
  "isInitialized ready_state
   \<and> purchase_outcome (env_purchase_fails ''User cancelled'' ''PURCHASE_CANCELLED'')
       = Inr (purchase_failed ''User cancelled'' ''PURCHASE_CANCELLED'')
   \<and> \<not> success (purchase_failed ''User cancelled'' ''PURCHASE_CANCELLED'')
   \<and> error (purchase_failed ''User cancelled'' ''PURCHASE_CANCELLED'')
       = Some \<lparr> message = ''User cancelled'', code = ''PURCHASE_CANCELLED'' \<rparr>
   \<and> snd (purchaseProduct ready_state True
        (env_purchase_fails ''User cancelled'' ''PURCHASE_CANCELLED'')
        ''my_branches_premium_monthly'') = False
   \<and> filter is_toast (fst (purchaseProduct ready_state True
        (env_purchase_fails ''User cancelled'' ''PURCHASE_CANCELLED'')
        ''my_branches_premium_monthly'')) = []
   \<and> snd (purchaseProduct ready_state True
        (env_purchase_fails ''Card declined'' ''PAYMENT_ERROR'')
        ''my_branches_premium_monthly'') = False
   \<and> filter is_toast (fst (purchaseProduct ready_state True
        (env_purchase_fails ''Card declined'' ''PAYMENT_ERROR'')
        ''my_branches_premium_monthly''))
       = [Toast ''Purchase Failed'' ''Card declined'' Destructive]"
proof -
  have h0: "isInitialized ready_state" "True"
    by (simp_all add: examples)
  have h: "purchase_outcome (env_purchase_fails m c) = Inr (purchase_failed m c)"
    "\<not> (success (purchase_failed m c) \<and> customerInfo (purchase_failed m c) \<noteq> None)"
    "error (purchase_failed m c) = Some \<lparr> message = m, code = c \<rparr>" for m c
    by (simp_all add: examples)
  from cancelled_purchase_is_silent [where pid = "''my_branches_premium_monthly''",
      OF h0 h [of "''User cancelled''" "''PURCHASE_CANCELLED''"]]
    cancelled_purchase_is_silent [where pid = "''my_branches_premium_monthly''",
      OF h0 h [of "''Card declined''" "''PAYMENT_ERROR''"]]
    h0 h [of "''User cancelled''" "''PURCHASE_CANCELLED''"]
  show ?thesis by (simp add: purchase_failed_def)
qed

subsection \<open>Web checkout\<close>

text \<open>
  C4. On a native platform \<open>handleUpgrade\<close> does one thing, whatever the coupon and
  whatever the backend would answer: it shows the destructive toast "Not Available".
  No request is among its events.
\<close>

theorem handleUpgrade_native_blocked:
  "handleUpgrade True couponCode outcome useCoupon =
     [Toast ''Not Available''
       ''Web subscriptions are not available in the mobile app. Please use the in-app purchase options.''
       Destructive]
   \<and> filter is_api_request (handleUpgrade True couponCode outcome useCoupon) = []"
  by (simp add: handleUpgrade_def handleUpgrade_try_def not_available_toast_def)

subsection \<open>hasActiveSubscription\<close>

text \<open>
  C6, as claimed, fails at an end date that is no date: the string \<open>not-a-date\<close>, or
  an invalid \<^verbatim>\<open>Date\<close> object. The end date is present and not later than the
  clock, yet the comparison with NaN is false and the code answers true.
\<close>

theorem hasActiveSubscription_invalid_date_counterexample:
  "hasActiveSubscription example_Date_parse 1700000000000 (Some ''premium'') (Some ''active'')
     (Some (OfString ''not-a-date'')) None = True
   \<and> claimed_hasActiveSubscription example_Date_parse 1700000000000 (Some ''premium'')
       (Some ''active'') (Some (OfString ''not-a-date'')) = False
   \<and> hasActiveSubscription example_Date_parse 1700000000000 (Some ''premium'') (Some ''active'')
       (Some (OfDate (Date None))) None = True
   \<and> claimed_hasActiveSubscription example_Date_parse 1700000000000 (Some ''premium'')
       (Some ''active'') (Some (OfDate (Date None))) = False"
  by (simp add: hasActiveSubscription_def claimed_hasActiveSubscription_def example_Date_parse_def)

text \<open>
  C6, amended. With the end date absent (or the empty string), the answer is: plan is
  premium and status is active. With an end date that is a valid date, as an object
  or as a non-empty string that parses, the answer is: plan is premium, status is
  active and the date is strictly later than the clock; so an end date equal to the
  clock is expired. The provider argument never changes the answer.
\<close>

theorem hasActiveSubscription_valid_dates:
  "hasActiveSubscription Date_parse now plan status None provider
     = (plan = Some ''premium'' \<and> status = Some ''active'')
   \<and> hasActiveSubscription Date_parse now plan status (Some (OfString [])) provider
     = (plan = Some ''premium'' \<and> status = Some ''active'')
   \<and> hasActiveSubscription Date_parse now plan status (Some (OfDate (Date (Some t)))) provider
     = (plan = Some ''premium'' \<and> status = Some ''active'' \<and> now < t)
   \<and> (s \<noteq> [] \<and> Date_parse s = Some t \<longrightarrow>
       hasActiveSubscription Date_parse now plan status (Some (OfString s)) provider
       = (plan = Some ''premium'' \<and> status = Some ''active'' \<and> now < t))
   \<and> hasActiveSubscription Date_parse now plan status (Some (OfDate (Date (Some now)))) provider
     = False
   \<and> hasActiveSubscription Date_parse now plan status endsAt provider
     = hasActiveSubscription Date_parse now plan status endsAt provider'"
  by (auto simp: hasActiveSubscription_def)

theorem hasActiveSubscription_valid_dates_witness:
  "''2030-01-01T00:00:00.000Z'' \<noteq> []
   \<and> example_Date_parse ''2030-01-01T00:00:00.000Z'' = Some 1893456000000
   \<and> hasActiveSubscription example_Date_parse 1700000000000 (Some ''premium'') (Some ''active'')
       (Some (OfString ''2030-01-01T00:00:00.000Z'')) (Some ''stripe'') = True
   \<and> hasActiveSubscription example_Date_parse 1893456000000 (Some ''premium'') (Some ''active'')
       (Some (OfString ''2030-01-01T00:00:00.000Z'')) (Some ''stripe'') = False
   \<and> hasActiveSubscription example_Date_parse 1700000000000 (Some ''premium'') (Some ''canceled'')
       (Some (OfString ''2030-01-01T00:00:00.000Z'')) (Some ''stripe'') = False"
proof -
  have p: "''2030-01-01T00:00:00.000Z'' \<noteq> []
      \<and> example_Date_parse ''2030-01-01T00:00:00.000Z'' = Some 1893456000000"
    by (simp add: example_Date_parse_def)
  from p
    hasActiveSubscription_valid_dates [of example_Date_parse 1700000000000 "Some ''premium''"
      "Some ''active''" "Some ''stripe''" 1893456000000 "''2030-01-01T00:00:00.000Z''"]
    hasActiveSubscription_valid_dates [of example_Date_parse 1893456000000 "Some ''premium''"
      "Some ''active''" "Some ''stripe''" 1893456000000 "''2030-01-01T00:00:00.000Z''"]
    hasActiveSubscription_valid_dates [of example_Date_parse 1700000000000 "Some ''premium''"
      "Some ''canceled''" "Some ''stripe''" 1893456000000 "''2030-01-01T00:00:00.000Z''"]
  show ?thesis by simp
qed

subsection \<open>Plan catalog and limit evaluator\<close>

text \<open>
  C7. For all integers, \<open>hasReachedLimit count limit\<close> is false when the limit is the
  sentinel \<open>-1\<close>, whatever the count (zero and negative counts included), and is
  \<open>count \<ge> limit\<close> otherwise; a negative count has not reached a positive limit.
\<close>

theorem hasReachedLimit_spec:
  "hasReachedLimit count (- 1) = False
   \<and> (limit \<noteq> - 1 \<longrightarrow> hasReachedLimit count limit = (count \<ge> limit))
   \<and> (count < 0 \<and> 0 < limit \<longrightarrow> hasReachedLimit count limit = False)"
  by (simp add: hasReachedLimit_def)

theorem hasReachedLimit_spec_witness:
  "hasReachedLimit (- 3) (- 1) = False
   \<and> (5::int) \<noteq> - 1 \<and> hasReachedLimit 5 5 = True
   \<and> (- 3::int) < 0 \<and> (0::int) < 5 \<and> hasReachedLimit (- 3) 5 = False"
  using hasReachedLimit_spec [of "- 3" 5] hasReachedLimit_spec [of 5 5]
  by simp

text \<open>
  C8. \<open>getPlanLimits\<close> is defined on both plans and returns the catalog's records:
  the basic plan has \<open>maxGroups = 0\<close>, \<open>maxEventsPerMonth = 0\<close>,
  \<open>maxMembersPerGroup = -1\<close>, no advanced features, chat and task management,
  no event planning and no mailing labels; the premium plan has the three limits at
  \<open>-1\<close> and the five flags true.
\<close>

theorem getPlanLimits_catalog:
  "getPlanLimits Basic =
     \<lparr> maxGroups = 0, maxEventsPerMonth = 0, maxMembersPerGroup = - 1,
       canUseAdvancedFeatures = False, hasRealTimeChat = True, hasTaskManagement = True,
       hasEventPlanning = False, hasMailingLabels = False \<rparr>
   \<and> getPlanLimits Premium =
     \<lparr> maxGroups = - 1, maxEventsPerMonth = - 1, maxMembersPerGroup = - 1,
       canUseAdvancedFeatures = True, hasRealTimeChat = True, hasTaskManagement = True,
       hasEventPlanning = True, hasMailingLabels = True \<rparr>"
  by (simp add: getPlanLimits_def PLAN_LIMITS_def)

text \<open>
  C10, as claimed, fails: for the key \<open>maxGroups\<close> the function does not return the
  booleans true and false. It returns the stored numbers.
\<close>

theorem canUserAccessFeature_number_counterexample:
  "canUserAccessFeature Premium K_maxGroups \<noteq> JBool True
   \<and> canUserAccessFeature Basic K_maxGroups \<noteq> JBool False"
  by (simp add: canUserAccessFeature_def getPlanLimits_def PLAN_LIMITS_def)

text \<open>
  C10, amended. \<open>canUserAccessFeature\<close> is defined on every plan and key. For a
  numeric-limit key it returns the stored number as it is: for \<open>maxGroups\<close>,
  \<open>-1\<close> on the premium plan, which is truthy, and \<open>0\<close> on the basic plan, which is
  falsy.
\<close>

theorem canUserAccessFeature_numeric_key:
  "canUserAccessFeature plan K_maxGroups = JNum (maxGroups (getPlanLimits plan))
   \<and> canUserAccessFeature plan K_maxEventsPerMonth = JNum (maxEventsPerMonth (getPlanLimits plan))
   \<and> canUserAccessFeature plan K_maxMembersPerGroup = JNum (maxMembersPerGroup (getPlanLimits plan))
   \<and> canUserAccessFeature Premium K_maxGroups = JNum (- 1)
   \<and> truthy (canUserAccessFeature Premium K_maxGroups) = True
   \<and> canUserAccessFeature Basic K_maxGroups = JNum 0
   \<and> truthy (canUserAccessFeature Basic K_maxGroups) = False"
  by (simp add: canUserAccessFeature_def getPlanLimits_def PLAN_LIMITS_def)

end
